theory Spec2Isabelle
  imports Main "HOL-Library.AList" "HOL-Library.Multiset" "HOL-Library.Word"
begin

section \<open>m3u8load: data model\<close>

text \<open>
  The program (package \<open>cmd\<close>) keeps its whole state in package-level variables:
  \<open>downloadProcess\<close> (a \<open>DownloadProcess\<close> struct), the progress bar \<open>bar\<close>, and the
  file system it reads and writes. The model passes them around as one record.

  \<^item> \<open>MediaStatus\<close> is a Go \<open>map[string]bool\<close> and \<open>status\<close> a \<open>*sync.Map\<close>; both are
    association lists here. The order of the list stands for the order in which
    \<open>range\<close> happens to visit the entries, which Go leaves unspecified, so a statement that
    holds for every list holds for every visiting order. A nil map ranges like an empty
    one; a nil \<open>*sync.Map\<close> is \<open>None\<close>, and using it panics.
  \<^item> \<open>bar\<close> is a \<open>*pb.ProgressBar\<close>: \<open>None\<close> while nil, otherwise total and current count.
  \<^item> the file system maps a path to a file. The output directory is taken to be
    writable: creating and removing files in it succeeds. A file may exist and yet
    refuse to be opened for reading (\<open>Unreadable\<close>).
  \<^item> \<open>DownloadProcess\<close> embeds a \<open>sync.Mutex\<close> that only \<open>writeJsonFile\<close> takes. It is
    released at the end of \<open>writeJsonFile\<close> and not by a deferred call, so a panic in
    between leaves it locked for good: \<open>locked\<close> is that fact, and a later \<open>Lock()\<close>
    never returns.
\<close>

datatype file_content = Unreadable | Data string

record DownloadProcess =
  Path :: string
  MediaStatus :: "(string \<times> bool) list"
  MediaList :: "string list"
  status :: "(string \<times> bool) list option"

record world = DownloadProcess +
  bar :: "(nat \<times> nat) option"
  files :: "string \<rightharpoonup> file_content"
  locked :: bool

text \<open>What a run does to the outside, in program order.\<close>

datatype failure =
    NilDereference
  | UrlParseError string
  | ConnectionError string
  | RedirectError string
  | DecodeError
  | UnescapeError string
  | CopyError string
  | NotValidMediaPlaylist
  | OpenNotExist string
  | OpenPermission string

datatype event =
    HttpGet string
  | Sleep nat
  | Send string
  | Close
  | WgDone
  | Release
  | Println string
  | PrintErr failure
  | LogStatus nat string

text \<open>
  How a function ends: it returns (\<open>Done\<close>), a panic leaves it (\<open>Panic\<close>), or it waits
  forever (\<open>Blocked\<close>).
\<close>

datatype ending = Done | Panic failure | Blocked

section \<open>The merge stage\<close>




definition file_Write :: "string \<Rightarrow> string \<Rightarrow> world \<Rightarrow> world" where
  "file_Write p b w =
     w\<lparr>files := (files w)(p \<mapsto>
        Data ((case files w p of Some (Data c) \<Rightarrow> c | _ \<Rightarrow> []) @ b))\<rparr>"

text \<open>
  The two paths of the merge: \<open>outPath + string(os.PathSeparator) + value\<close> for a segment
  (the separator is \<open>/\<close>: the program uses Unix-only signals) and \<open>outPath + ".ts"\<close> for
  the artifact.
\<close>

definition segment_path :: "string \<Rightarrow> string \<Rightarrow> string" where
  "segment_path outPath v = outPath @ ''/'' @ v"







section \<open>External collaborators\<close>

text \<open>
  The collaborators the program calls and this repository does not contain: URL parsing
  and resolution (\<open>net/url\<close>), the HTTP client together with the manifest decoder
  (\<open>m3u8.DecodeFrom\<close>), and \<open>encoding/json\<close>. They are parameters of the model.

  \<^item> \<open>url_Parse u\<close>: \<open>url.Parse(u)\<close> succeeds (\<open>http.NewRequest\<close> fails exactly when it
    does not).
  \<^item> \<open>url_Resolve base ref\<close>: \<open>base.Parse(ref)\<close> rendered by \<open>String()\<close>, \<open>None\<close> on error.
  \<^item> \<open>url_QueryUnescape\<close>: \<open>url.QueryUnescape\<close>, \<open>None\<close> on error.
  \<^item> \<open>manifest_Get u\<close>: what \<open>doRequest\<close> followed by \<open>m3u8.DecodeFrom\<close> yields for a
    manifest URL: an error and no response (a transport error, \<open>resp\<close> is nil); an
    error and a response whose body is closed already (the one case in which
    \<open>http.Client.Do\<close> returns both: the redirect policy failed); a body that does not
    decode; or a decoded playlist. The status code of the response is not looked at.
  \<^item> \<open>segment_Get u\<close>: what \<open>doRequest\<close> yields for a segment URL: an error, or a
    response with its status code, the bytes its body delivers and whether the body
    was delivered to its end.
  \<^item> \<open>json_Marshal\<close> and \<open>json_Unmarshal\<close>: the unexported field \<open>status\<close> is invisible
    to both. \<open>json.Unmarshal\<close> checks the syntax of the whole input before it stores
    anything (\<open>SyntaxError\<close>: target untouched); on a value of the wrong type for a
    field it skips that field, goes on, and returns the error at the end
    (\<open>TypeMismatch\<close> with the target as filled so far).
\<close>

record MediaPlaylist =
  Segments :: "string option list"
  Closed :: bool
  TargetDuration :: nat

record Variant =
  URI :: string
  Bandwidth :: "32 word"

datatype playlist = MEDIA MediaPlaylist | MASTER "Variant list" | OTHER

datatype manifest_response = NoResponse | RedirectFailure | Undecodable | Decoded playlist

datatype segment_response = NoConnection | Response nat string bool

datatype unmarshal_result =
  SyntaxError | TypeMismatch DownloadProcess | Unmarshalled DownloadProcess

record extern =
  url_Parse :: "string \<Rightarrow> bool"
  url_Resolve :: "string \<Rightarrow> string \<Rightarrow> string option"
  url_QueryUnescape :: "string \<Rightarrow> string option"
  manifest_Get :: "string \<Rightarrow> manifest_response"
  segment_Get :: "string \<Rightarrow> segment_response"
  json_Marshal :: "DownloadProcess \<Rightarrow> string"
  json_Unmarshal :: "string \<Rightarrow> DownloadProcess \<Rightarrow> unmarshal_result"

section \<open>The checkpoint store\<close>

text \<open>
  The checkpoint file \<open>outPath + string(os.PathSeparator) + ".index"\<close>, and the fields
  of \<open>downloadProcess\<close> that \<open>encoding/json\<close> sees.
\<close>

definition index_path :: "string \<Rightarrow> string" where
  "index_path outPath = outPath @ ''/'' @ ''.index''"

definition exported :: "world \<Rightarrow> DownloadProcess" where
  "exported w =
     \<lparr>Path = Path w, MediaStatus = MediaStatus w, MediaList = MediaList w, status = None\<rparr>"

definition store_exported :: "DownloadProcess \<Rightarrow> world \<Rightarrow> world" where
  "store_exported d w =
     w\<lparr>Path := Path d, MediaStatus := MediaStatus d, MediaList := MediaList d\<rparr>"

text \<open>\<open>load(filename, downloadProcess)\<close>: both errors are dropped by a bare \<open>return\<close>.\<close>

definition load :: "extern \<Rightarrow> string \<Rightarrow> world \<Rightarrow> world" where
  "load ext filename w =
     (case files w filename of
        None \<Rightarrow> w
      | Some Unreadable \<Rightarrow> w
      | Some (Data data) \<Rightarrow>
          (case json_Unmarshal ext data (exported w) of
             SyntaxError \<Rightarrow> w
           | TypeMismatch d \<Rightarrow> store_exported d w
           | Unmarshalled d \<Rightarrow> store_exported d w))"

text \<open>
  \<open>writeJsonFile\<close>: copies every entry of \<open>status\<close> into \<open>MediaStatus\<close> and writes the
  struct to \<open><outPath>/.index\<close>; the error of \<open>ioutil.WriteFile\<close> is dropped.
\<close>

definition writeJsonFile :: "extern \<Rightarrow> string \<Rightarrow> world \<Rightarrow> world \<times> ending" where
  "writeJsonFile ext outPath w =
     (if locked w then (w, Blocked)
      else case status w of
             None \<Rightarrow> (w\<lparr>locked := True\<rparr>, Panic NilDereference)
           | Some s \<Rightarrow>
               (let w1 = w\<lparr>MediaStatus := fold (\<lambda>(k, v). AList.update k v) s (MediaStatus w)\<rparr>
                in (w1\<lparr>files := (files w1)(index_path outPath \<mapsto> Data (json_Marshal ext (exported w1)))\<rparr>,
                    Done)))"

text \<open>
  \<open>catchException\<close>, always called as \<open>defer catchException()\<close>: it recovers the panic in
  flight, if any, prints it, and writes the checkpoint. The argument is how the
  function body ended; the result is how the function ends after the deferred call.
\<close>

definition catchException ::
  "extern \<Rightarrow> string \<Rightarrow> world \<times> event list \<times> ending \<Rightarrow> world \<times> event list \<times> ending" where
  "catchException ext outPath r =
     (case r of
        (w, evs, Blocked) \<Rightarrow> (w, evs, Blocked)
      | (w, evs, Done) \<Rightarrow>
          (let (w1, e1) = writeJsonFile ext outPath w in (w1, evs, e1))
      | (w, evs, Panic f) \<Rightarrow>
          (let (w1, e1) = writeJsonFile ext outPath w in (w1, evs @ [PrintErr f], e1)))"

section \<open>Names and absolute URIs\<close>

text \<open>\<open>strings.LastIndex(s, "/")\<close>, \<open>strings.HasPrefix\<close> and \<open>strings.HasSuffix\<close>.\<close>

fun LastIndex :: "string \<Rightarrow> char \<Rightarrow> int" where
  "LastIndex [] c = - 1"
| "LastIndex (x # xs) c =
     (let r = LastIndex xs c
      in if r \<noteq> - 1 then r + 1 else if x = c then 0 else - 1)"

definition HasPrefix :: "string \<Rightarrow> string \<Rightarrow> bool" where
  "HasPrefix s p = (take (length p) s = p)"


definition getFileName :: "string \<Rightarrow> string" where
  "getFileName uri = drop (nat (LastIndex uri CHR ''/'' + 1)) uri"

text \<open>
  \<open>getAbsoluteUri\<close>. When \<open>playlistUrl.Parse\<close> fails, \<open>masterURL\<close> is nil and
  \<open>masterURL.String()\<close> panics before the error is looked at.
\<close>

definition getAbsoluteUri :: "extern \<Rightarrow> string \<Rightarrow> string \<Rightarrow> failure + string" where
  "getAbsoluteUri ext masterURI playlistUrl =
     (case (if \<not> HasPrefix masterURI ''http''
            then (case url_Resolve ext playlistUrl masterURI of
                    None \<Rightarrow> Inl NilDereference
                  | Some u \<Rightarrow> Inr u)
            else Inr masterURI) of
        Inl f \<Rightarrow> Inl f
      | Inr u \<Rightarrow>
          (case url_QueryUnescape ext u of
             None \<Rightarrow> Inl (UnescapeError u)
           | Some msURI \<Rightarrow> Inr msURI))"

definition getFilePath :: "extern \<Rightarrow> string \<Rightarrow> string \<Rightarrow> failure + string" where
  "getFilePath ext uri playlistUrl =
     (case getAbsoluteUri ext uri playlistUrl of
        Inl f \<Rightarrow> Inl f
      | Inr u \<Rightarrow> Inr (take (nat (LastIndex u CHR ''/'' + 1)) u))"

text \<open>
  \<open>setMediaStatus\<close> stores under the file name of the URI. Its only caller,
  \<open>downloadSegment\<close>, has called \<open>status.Load\<close> before, so \<open>status\<close> is not nil there.
\<close>

definition setMediaStatus :: "string \<Rightarrow> bool \<Rightarrow> world \<Rightarrow> world" where
  "setMediaStatus uri v w =
     w\<lparr>status := map_option (AList.update (getFileName uri) v) (status w)\<rparr>"

section \<open>The dedup cache\<close>

text \<open>
  \<open>lru.New(1024)\<close> of groupcache: the keys, most recently used first. \<open>Get\<close> moves a
  hit to the front; \<open>Add\<close> moves an existing key to the front, or pushes a new one and
  drops the oldest when more than 1024 are held.
\<close>

definition lru_Get :: "string list \<Rightarrow> string \<Rightarrow> string list \<times> bool" where
  "lru_Get c k = (if k \<in> set c then (k # remove1 k c, True) else (c, False))"

definition lru_Add :: "string list \<Rightarrow> string \<Rightarrow> string list" where
  "lru_Add c k =
     (if k \<in> set c then k # remove1 k c
      else if length (k # c) > 1024 then butlast (k # c) else k # c)"

section \<open>The manifest resolver\<close>

text \<open>
  The first loop of the media branch of \<open>getPlaylist\<close>: every non-nil segment is
  recorded under \<open>getFileName\<close> of its URI as written in the manifest.
\<close>

fun record_segments :: "extern \<Rightarrow> string \<Rightarrow> string option list \<Rightarrow> world \<Rightarrow> world \<times> ending" where
  "record_segments ext playlistUrl [] w = (w, Done)"
| "record_segments ext playlistUrl (None # vs) w = record_segments ext playlistUrl vs w"
| "record_segments ext playlistUrl (Some uri # vs) w =
     (case (if Path w = []
            then (case getFilePath ext uri playlistUrl of
                    Inl f \<Rightarrow> Inl f
                  | Inr p \<Rightarrow> Inr (w\<lparr>Path := p\<rparr>))
            else Inr w) of
        Inl f \<Rightarrow> (w, Panic f)
      | Inr w1 \<Rightarrow>
          (case status w1 of
             None \<Rightarrow> (w1, Panic NilDereference)
           | Some s \<Rightarrow>
               record_segments ext playlistUrl vs
                 (w1\<lparr>status := Some (AList.update (getFileName uri) False s),
                     MediaList := MediaList w1 @ [getFileName uri]\<rparr>)))"

text \<open>
  The second loop: every non-nil segment whose absolute URI is not in the cache is
  sent down the channel.
\<close>

fun send_segments :: "extern \<Rightarrow> string \<Rightarrow> string option list \<Rightarrow> string list \<Rightarrow> event list \<times> ending" where
  "send_segments ext playlistUrl [] cache = ([], Done)"
| "send_segments ext playlistUrl (None # vs) cache = send_segments ext playlistUrl vs cache"
| "send_segments ext playlistUrl (Some uri # vs) cache =
     (case getAbsoluteUri ext uri playlistUrl of
        Inl f \<Rightarrow> ([], Panic f)
      | Inr msURI \<Rightarrow>
          (let (cache1, hit) = lru_Get cache msURI
           in if \<not> hit
              then (let (evs, e) = send_segments ext playlistUrl vs (lru_Add cache1 msURI)
                    in (Send msURI # evs, e))
              else send_segments ext playlistUrl vs cache1))"

text \<open>
  The branch \<open>listType == m3u8.MEDIA\<close>. \<open>TargetDuration\<close> is in seconds; after the sleep
  the function is at its end.
\<close>

definition resolve_media :: "extern \<Rightarrow> string \<Rightarrow> MediaPlaylist \<Rightarrow> world \<Rightarrow> world \<times> event list \<times> ending" where
  "resolve_media ext playlistUrl mpl w =
     (case record_segments ext playlistUrl (Segments mpl) (w\<lparr>status := Some []\<rparr>) of
        (w1, Panic f) \<Rightarrow> (w1, [], Panic f)
      | (w1, Blocked) \<Rightarrow> (w1, [], Blocked)
      | (w1, Done) \<Rightarrow>
          (let w2 = w1\<lparr>bar := Some (length (MediaList w1), 0)\<rparr>
           in case send_segments ext playlistUrl (Segments mpl) [] of
                (evs, Panic f) \<Rightarrow> (w2, evs, Panic f)
              | (evs, Blocked) \<Rightarrow> (w2, evs, Blocked)
              | (evs, Done) \<Rightarrow>
                  (if Closed mpl then (w2, evs @ [Close], Done)
                   else (w2, evs @ [Sleep (TargetDuration mpl)], Done))))"

text \<open>The loop of the branch \<open>listType == m3u8.MASTER\<close> over \<open>mpl.Variants\<close>.\<close>

fun select_variant :: "Variant list \<Rightarrow> string \<Rightarrow> 32 word \<Rightarrow> string" where
  "select_variant [] masterURI maxBandwidth = masterURI"
| "select_variant (v # vs) masterURI maxBandwidth =
     (if Bandwidth v > maxBandwidth then select_variant vs (URI v) (Bandwidth v)
      else select_variant vs masterURI maxBandwidth)"

text \<open>
  \<open>getPlaylist\<close>. It calls itself on the variant it selects, and a manifest may name
  itself, so the recursion is bounded by fuel: \<open>None\<close> means the fuel ran out. Each
  call has its own deferred \<open>catchException\<close>.
\<close>

fun getPlaylist :: "nat \<Rightarrow> extern \<Rightarrow> string \<Rightarrow> string \<Rightarrow> world \<Rightarrow> (world \<times> event list \<times> ending) option" where
  "getPlaylist 0 ext outPath urlStr w = None"
| "getPlaylist (Suc n) ext outPath urlStr w =
     (if \<not> url_Parse ext urlStr
      then Some (catchException ext outPath (w, [], Panic (UrlParseError urlStr)))
      else case manifest_Get ext urlStr of
             NoResponse \<Rightarrow>
               Some (catchException ext outPath
                 (w, [HttpGet urlStr, PrintErr (ConnectionError urlStr), Sleep 3],
                  Panic NilDereference))
           | RedirectFailure \<Rightarrow>
               Some (catchException ext outPath
                 (w, [HttpGet urlStr, PrintErr (RedirectError urlStr), Sleep 3],
                  Panic DecodeError))
           | Undecodable \<Rightarrow>
               Some (catchException ext outPath (w, [HttpGet urlStr], Panic DecodeError))
           | Decoded (MEDIA mpl) \<Rightarrow>
               (case resolve_media ext urlStr mpl w of
                  (w1, evs, e) \<Rightarrow> Some (catchException ext outPath (w1, HttpGet urlStr # evs, e)))
           | Decoded (MASTER variants) \<Rightarrow>
               (case getAbsoluteUri ext (select_variant variants [] 0) urlStr of
                  Inl f \<Rightarrow> Some (catchException ext outPath (w, [HttpGet urlStr], Panic f))
                | Inr msURI \<Rightarrow>
                    (case getPlaylist n ext outPath msURI w of
                       None \<Rightarrow> None
                     | Some (w1, evs, e) \<Rightarrow>
                         Some (catchException ext outPath
                           (w1, HttpGet urlStr # Println (''master m3u8 url '' @ msURI) # evs, e))))
           | Decoded OTHER \<Rightarrow>
               Some (catchException ext outPath
                 (w, [HttpGet urlStr], Panic NotValidMediaPlaylist)))"

text \<open>The loop of \<open>getContinuePlaylist\<close> over \<open>downloadProcess.MediaStatus\<close>.\<close>

fun continue_loop :: "(string \<times> bool) list \<Rightarrow> world \<Rightarrow> world \<times> event list \<times> ending" where
  "continue_loop [] w = (w, [], Done)"
| "continue_loop ((key, v) # rest) w =
     (case status w of
        None \<Rightarrow> (w, [], Panic NilDereference)
      | Some s \<Rightarrow>
          (if v = False
           then (case continue_loop rest (w\<lparr>status := Some (AList.update key False s)\<rparr>) of
                   (w1, evs, e) \<Rightarrow> (w1, Send (Path w @ key) # evs, e))
           else (case bar w of
                   None \<Rightarrow> (w\<lparr>status := Some (AList.update key True s)\<rparr>, [], Panic NilDereference)
                 | Some (tot, cur) \<Rightarrow>
                     continue_loop rest
                       (w\<lparr>status := Some (AList.update key True s),
                          bar := Some (tot, cur + 1)\<rparr>))))"

definition getContinuePlaylist :: "extern \<Rightarrow> string \<Rightarrow> world \<Rightarrow> world \<times> event list \<times> ending" where
  "getContinuePlaylist ext outPath w =
     catchException ext outPath
       (case continue_loop (MediaStatus w)
               (w\<lparr>bar := Some (length (MediaList w), 0), status := Some []\<rparr>) of
          (w1, evs, Done) \<Rightarrow> (w1, evs @ [Close], Done)
        | (w1, evs, e) \<Rightarrow> (w1, evs, e))"

section \<open>The fetch task\<close>

text \<open>
  \<open>downloadSegmentLimit\<close> starts one task, \<open>downloadSegment\<close>, for every descriptor it
  receives. The tasks are modelled one at a time; how they interleave is not.

  \<open>os.Create\<close> opens with \<open>O_RDWR|O_CREATE|O_TRUNC\<close>, which fails on a file that cannot
  be opened for reading. Its error is dropped by \<open>downloadSegment\<close>; the nil file then
  makes \<open>io.Copy\<close> fail.
\<close>

definition os_Create :: "string \<Rightarrow> world \<Rightarrow> world option" where
  "os_Create p w =
     (if files w p = Some Unreadable then None
      else Some (w\<lparr>files := (files w)(p \<mapsto> Data [])\<rparr>))"

text \<open>
  \<open>downloadSegment(chLimit, wg, outPath, v)\<close> with \<open>uri = v.URI\<close>. \<open>WgDone\<close> is
  \<open>wg.Done()\<close> and \<open>Release\<close> is \<open><-chLimit\<close>, the last two statements of the function.
  \<open>status.Load(v.URI)\<close> reports whether the key is present.
\<close>

definition downloadSegment :: "extern \<Rightarrow> string \<Rightarrow> string \<Rightarrow> world \<Rightarrow> world \<times> event list \<times> ending" where
  "downloadSegment ext outPath uri w =
     catchException ext outPath
       (if LastIndex uri CHR ''/'' \<noteq> - 1
        then (case status w of
                None \<Rightarrow> (w, [], Panic NilDereference)
              | Some s \<Rightarrow>
                  (if map_of s uri \<noteq> None then (w, [], Done)
                   else if \<not> url_Parse ext uri then (w, [], Panic (UrlParseError uri))
                   else case segment_Get ext uri of
                          NoConnection \<Rightarrow>
                            (setMediaStatus uri False w,
                             [HttpGet uri, PrintErr (ConnectionError uri)], Done)
                        | Response code body complete \<Rightarrow>
                            (if code \<noteq> 200
                             then (setMediaStatus uri False w,
                                   [HttpGet uri, LogStatus code uri], Done)
                             else case os_Create (segment_path outPath (getFileName uri)) w of
                                    None \<Rightarrow> (w, [HttpGet uri], Panic (CopyError uri))
                                  | Some w1 \<Rightarrow>
                                      (let w2 = file_Write (segment_path outPath (getFileName uri)) body w1
                                       in if \<not> complete
                                          then (w2, [HttpGet uri], Panic (CopyError uri))
                                          else (case bar w2 of
                                                  None \<Rightarrow>
                                                    (setMediaStatus uri True w2, [HttpGet uri],
                                                     Panic NilDereference)
                                                | Some (tot, cur) \<Rightarrow>
                                                    ((setMediaStatus uri True w2)\<lparr>bar := Some (tot, cur + 1)\<rparr>,
                                                     [HttpGet uri, WgDone, Release], Done))))))
        else (w, [WgDone, Release], Done))"

section \<open>The lifecycle\<close>

text \<open>
  How the process ends: \<open>os.Exit(n)\<close>; an unrecovered panic (the Go runtime then
  terminates the process with status 2); a goroutine blocked for good; or
  \<open>downloadFunc\<close> returning to its caller without having called \<open>os.Exit\<close>.
\<close>

datatype process_end = Exit nat | Crash | Hang | Return

definition exit_status :: "process_end \<Rightarrow> nat option" where
  "exit_status p = (case p of Exit n \<Rightarrow> Some n | Crash \<Rightarrow> Some 2 | Hang \<Rightarrow> None | Return \<Rightarrow> None)"

text \<open>The state of the package-level variables when the process starts.\<close>

definition initial_world :: "(string \<rightharpoonup> file_content) \<Rightarrow> world" where
  "initial_world fs =
     \<lparr>Path = [], MediaStatus = [], MediaList = [], status = None,
      bar = None, files = fs, locked = False\<rparr>"


text \<open>
  The resolver that \<open>downloadFunc\<close> starts: \<open>getPlaylist\<close> when \<open>os.Stat\<close> finds no
  \<open>.index\<close>; otherwise, after \<open>load\<close>, \<open>getContinuePlaylist\<close> when \<open>MediaList\<close> is not
  empty and \<open>getPlaylist\<close> when it is.
\<close>

definition downloadFunc_resolve ::
  "nat \<Rightarrow> extern \<Rightarrow> string \<Rightarrow> string \<Rightarrow> world \<Rightarrow> (world \<times> event list \<times> ending) option" where
  "downloadFunc_resolve n ext m3u8Url outPath w =
     (if files w (index_path outPath) = None
      then getPlaylist n ext outPath m3u8Url w
      else (let w1 = load ext (index_path outPath) w
            in if length (MediaList w1) > 0
               then Some (getContinuePlaylist ext outPath w1)
               else getPlaylist n ext outPath m3u8Url w1))"




text \<open>
  \<open>listenSignal\<close>, from the moment a signal arrives. It has no deferred call, so a
  panic in \<open>writeJsonFile\<close> ends the process.
\<close>

definition listenSignal :: "extern \<Rightarrow> string \<Rightarrow> world \<Rightarrow> world \<times> event list \<times> process_end" where
  "listenSignal ext outPath w =
     (case writeJsonFile ext outPath w of
        (w1, Done) \<Rightarrow> (w1, [Println ''exit program , signs: ''], Exit 0)
      | (w1, Panic f) \<Rightarrow> (w1, [Println ''exit program , signs: ''], Crash)
      | (w1, Blocked) \<Rightarrow> (w1, [Println ''exit program , signs: ''], Hang))"

section \<open>Notions used in the statements\<close>

text \<open>The URIs sent down the channel, and the URLs requested, in a list of events.\<close>

fun sent :: "event list \<Rightarrow> string list" where
  "sent [] = []"
| "sent (Send u # evs) = u # sent evs"
| "sent (e # evs) = sent evs"

fun fetched :: "event list \<Rightarrow> string list" where
  "fetched [] = []"
| "fetched (HttpGet u # evs) = u # fetched evs"
| "fetched (e # evs) = fetched evs"


text \<open>
  A checkpoint file that exists and from which \<open>load\<close> gets nothing: it cannot be read,
  or its content is not JSON.
\<close>

definition checkpoint_unusable :: "extern \<Rightarrow> string \<Rightarrow> world \<Rightarrow> bool" where
  "checkpoint_unusable ext outPath w =
     (case files w (index_path outPath) of
        None \<Rightarrow> False
      | Some Unreadable \<Rightarrow> True
      | Some (Data d) \<Rightarrow> json_Unmarshal ext d (exported w) = SyntaxError)"

section \<open>Concrete inputs\<close>

text \<open>
  Collaborators for the examples: every URL parses, a relative reference is resolved
  against the directory of the base (the empty reference gives the base itself),
  nothing is percent-escaped, no server answers, and no input is JSON.
\<close>

definition dir_of :: "string \<Rightarrow> string" where
  "dir_of u = take (nat (LastIndex u CHR ''/'' + 1)) u"

definition plain_extern :: extern where
  "plain_extern =
     \<lparr>url_Parse = (\<lambda>u. True),
      url_Resolve = (\<lambda>b r. if r = [] then Some b else Some (dir_of b @ r)),
      url_QueryUnescape = (\<lambda>u. Some u),
      manifest_Get = (\<lambda>u. NoResponse),
      segment_Get = (\<lambda>u. NoConnection),
      json_Marshal = (\<lambda>d. ''checkpoint''),
      json_Unmarshal = (\<lambda>s d. SyntaxError)\<rparr>"

text \<open>
  A run on the manifest \<open>http://h/v/index.m3u8\<close> with the single segment \<open>seg1.ts\<close>,
  after resolution, with the segment's status as given, the progress bar accordingly,
  and an empty output directory.
\<close>

definition one_segment_world :: "bool \<Rightarrow> world" where
  "one_segment_world v =
     (initial_world Map.empty)
       \<lparr>Path := ''http://h/v/'', MediaList := [''seg1.ts''],
        status := Some [(''seg1.ts'', v)], bar := Some (1, if v then 1 else 0)\<rparr>"

text \<open>
  A closed manifest that names two segments with the same file name, on a server that
  serves both; the state after its resolution, and after the task of the first segment.
\<close>

definition collision_manifest :: playlist where
  "collision_manifest =
     MEDIA \<lparr>Segments = [Some ''a/seg1.ts'', Some ''b/seg1.ts''], Closed = True, TargetDuration = 10\<rparr>"

definition collision_extern :: extern where
  "collision_extern =
     plain_extern\<lparr>manifest_Get := (\<lambda>u. Decoded collision_manifest),
                  segment_Get := (\<lambda>u. Response 200 ''DATA'' True)\<rparr>"

definition collision_resolved :: world where
  "collision_resolved =
     (case getPlaylist 1 collision_extern ''out'' ''http://h/v/index.m3u8'' (initial_world Map.empty) of
        None \<Rightarrow> initial_world Map.empty
      | Some r \<Rightarrow> fst r)"

definition collision_first_done :: world where
  "collision_first_done =
     fst (downloadSegment collision_extern ''out'' ''http://h/v/a/seg1.ts'' collision_resolved)"

text \<open>A live manifest (not closed) and a master manifest whose only variant declares bandwidth 0.\<close>

definition live_manifest :: playlist where
  "live_manifest =
     MEDIA \<lparr>Segments = [Some ''seg1.ts'', Some ''seg2.ts'', None], Closed = False, TargetDuration = 10\<rparr>"

definition zero_bandwidth_master :: playlist where
  "zero_bandwidth_master = MASTER [\<lparr>URI = ''low.m3u8'', Bandwidth = 0\<rparr>]"





text \<open>
  An output directory that holds a checkpoint file and nothing else, and two
  checkpoints it may decode to. The first is what a run leaves behind for a manifest
  whose segment is written \<open>seg%201.ts\<close> after the fetch of that segment failed:
  the segment order has the name as written, the fetch task recorded its failure under
  the name of the unescaped absolute URI.
\<close>

definition index_only :: "string \<rightharpoonup> file_content" where
  "index_only = [''out/.index'' \<mapsto> Data ''checkpoint'']"

definition escaped_checkpoint :: DownloadProcess where
  "escaped_checkpoint =
     \<lparr>Path = ''http://h/v/'',
      MediaStatus = [(''seg%201.ts'', False), (''seg 1.ts'', False)],
      MediaList = [''seg%201.ts''],
      status = None\<rparr>"

definition half_done_checkpoint :: DownloadProcess where
  "half_done_checkpoint =
     \<lparr>Path = ''http://h/v/'',
      MediaStatus = [(''seg2.ts'', False), (''seg1.ts'', True)],
      MediaList = [''seg1.ts'', ''seg2.ts''],
      status = None\<rparr>"

text \<open>
  A checkpoint file that is well-formed JSON with a number where \<open>Path\<close> wants a string.
  \<open>json.Unmarshal\<close> skips \<open>Path\<close>, stores the two other fields and returns an
  \<open>UnmarshalTypeError\<close>.
\<close>

definition mismatch_document :: string where
  \<open>mismatch_document = ''{"Path": 5, "MediaStatus": {"seg1.ts": false}, "MediaList": ["seg1.ts"]}''\<close>

definition mismatch_index :: "string \<rightharpoonup> file_content" where
  "mismatch_index = [''out/.index'' \<mapsto> Data mismatch_document]"

definition mismatch_extern :: extern where
  "mismatch_extern =
     plain_extern\<lparr>json_Unmarshal :=
       (\<lambda>s d. if s = mismatch_document
              then TypeMismatch (d\<lparr>MediaStatus := [(''seg1.ts'', False)], MediaList := [''seg1.ts'']\<rparr>)
              else SyntaxError)\<rparr>"

text \<open>Servers that refuse the segment (404), serve the live manifest, serve the master manifest.\<close>

definition refusing_extern :: extern where
  "refusing_extern = plain_extern\<lparr>segment_Get := (\<lambda>u. Response 404 [] True)\<rparr>"

definition live_extern :: extern where
  "live_extern = plain_extern\<lparr>manifest_Get := (\<lambda>u. Decoded live_manifest)\<rparr>"

definition zero_bandwidth_extern :: extern where
  "zero_bandwidth_extern = plain_extern\<lparr>manifest_Get := (\<lambda>u. Decoded zero_bandwidth_master)\<rparr>"

text \<open>Decoders that read the checkpoint file as one of the two checkpoints above.\<close>

definition escaped_extern :: extern where
  "escaped_extern = plain_extern\<lparr>json_Unmarshal := (\<lambda>s d. Unmarshalled escaped_checkpoint)\<rparr>"

definition half_done_extern :: extern where
  "half_done_extern = plain_extern\<lparr>json_Unmarshal := (\<lambda>s d. Unmarshalled half_done_checkpoint)\<rparr>"

section \<open>Properties of the merge stage\<close>



















section \<open>Properties of the checkpoint store and of the resolvers\<close>


lemma writeJsonFile_bar: "bar (fst (writeJsonFile ext outPath w)) = bar w"
  by (simp add: writeJsonFile_def Let_def split: option.splits)


lemma catchException_events_Done:
  "fst (snd (catchException ext outPath (w, evs, Done))) = evs"
  by (simp add: catchException_def split_beta)

lemma catchException_bar:
  "bar (fst (catchException ext outPath (w, evs, e))) = bar w"
  by (cases e) (simp_all add: catchException_def split_beta writeJsonFile_bar)

lemma fetched_append: "fetched (xs @ ys) = fetched xs @ fetched ys"
  by (induction xs rule: fetched.induct) auto

lemma catchException_fetched:
  "fetched (fst (snd (catchException ext outPath r))) = fetched (fst (snd r))"
proof -
  obtain w evs e where r: "r = (w, evs, e)" by (cases r)
  show ?thesis
    unfolding r by (cases e) (simp_all add: catchException_def split_beta fetched_append)
qed

lemma sent_map_Send: "sent (map (\<lambda>x. Send (f x)) xs @ [Close]) = map f xs"
  by (induction xs) auto

lemma fetched_map_Send: "fetched (map (\<lambda>x. Send (f x)) xs @ [Close]) = []"
  by (induction xs) auto

text \<open>
  The resume loop sends one URI for every entry of \<open>MediaStatus\<close> whose value is false,
  in the order of the entries, and counts the others.
\<close>

lemma continue_loop_sends:
  "status w = Some s \<Longrightarrow> bar w = Some (t, c) \<Longrightarrow>
   fst (snd (continue_loop ms w)) = map (\<lambda>kv. Send (Path w @ fst kv)) (filter (\<lambda>kv. \<not> snd kv) ms)
   \<and> snd (snd (continue_loop ms w)) = Done
   \<and> bar (fst (continue_loop ms w)) = Some (t, c + length (filter snd ms))"
proof (induction ms arbitrary: w s c)
  case Nil
  then show ?case by simp
next
  case (Cons kv ms)
  obtain k v where kv: "kv = (k, v)" by (cases kv)
  show ?case
  proof (cases v)
    case True
    let ?w = "w\<lparr>status := Some (AList.update k True s), bar := Some (t, c + 1)\<rparr>"
    have "status ?w = Some (AList.update k True s)" "bar ?w = Some (t, c + 1)" by simp_all
    from Cons.IH[OF this] Cons.prems True kv show ?thesis by simp
  next
    case False
    let ?w = "w\<lparr>status := Some (AList.update k False s)\<rparr>"
    have "status ?w = Some (AList.update k False s)" "bar ?w = Some (t, c)"
      using Cons.prems by simp_all
    from Cons.IH[OF this] Cons.prems False kv show ?thesis by (simp add: split_beta)
  qed
qed

lemma getContinuePlaylist_events:
  "fst (snd (getContinuePlaylist ext outPath w)) =
     map (\<lambda>kv. Send (Path w @ fst kv)) (filter (\<lambda>kv. \<not> snd kv) (MediaStatus w)) @ [Close]
   \<and> bar (fst (getContinuePlaylist ext outPath w)) =
       Some (length (MediaList w), length (filter snd (MediaStatus w)))"
proof -
  let ?w0 = "w\<lparr>bar := Some (length (MediaList w), 0), status := Some []\<rparr>"
  have "status ?w0 = Some []" "bar ?w0 = Some (length (MediaList w), 0)" by simp_all
  from continue_loop_sends[OF this, of "MediaStatus w"]
  obtain w1 where "continue_loop (MediaStatus w) ?w0 =
      (w1, map (\<lambda>kv. Send (Path w @ fst kv)) (filter (\<lambda>kv. \<not> snd kv) (MediaStatus w)), Done)"
    and "bar w1 = Some (length (MediaList w), length (filter snd (MediaStatus w)))"
    by (cases "continue_loop (MediaStatus w) ?w0") auto
  then show ?thesis
    by (simp add: getContinuePlaylist_def catchException_events_Done catchException_bar)
qed

text \<open>
  When the keys of the status map are exactly the names of the segment order, each
  once, the entries with value false are the incomplete names of the order.
\<close>

lemma incomplete_entries_mset:
  assumes "distinct (map fst ms)" and "distinct ns" and "set ns = fst ` set ms"
  shows "mset (map fst (filter (\<lambda>kv. \<not> snd kv) ms)) = mset (filter (\<lambda>n. map_of ms n = Some False) ns)"
proof -
  have 1: "map fst (filter (\<lambda>kv. \<not> snd kv) ms) = filter (\<lambda>n. map_of ms n = Some False) (map fst ms)"
    using assms(1)
  proof (induction ms)
    case Nil
    then show ?case by simp
  next
    case (Cons kv ms)
    have "\<And>n. n \<in> fst ` set ms \<Longrightarrow> n \<noteq> fst kv"
      using Cons.prems by (cases kv) force
    then have "filter (\<lambda>n. map_of (kv # ms) n = Some False) (map fst ms)
             = filter (\<lambda>n. map_of ms n = Some False) (map fst ms)"
      by (intro filter_cong) (auto simp: )
    with Cons show ?case by (cases kv) (auto simp: image_iff)
  qed
  have "mset (map fst ms) = mset ns"
    using assms by (metis distinct_map set_eq_iff_mset_eq_distinct set_map)
  then have "mset (filter (\<lambda>n. map_of ms n = Some False) (map fst ms))
           = mset (filter (\<lambda>n. map_of ms n = Some False) ns)"
    by (metis mset_filter)
  with 1 show ?thesis by simp
qed

text \<open>
  \<open>getPlaylist\<close> requests its URL first, and requests it once: a media manifest that is
  not closed is not requested again after the sleep, and neither is a manifest whose
  request met a transport error.
\<close>

lemma getPlaylist_fetches_first:
  "url_Parse ext urlStr \<Longrightarrow> getPlaylist n ext outPath urlStr w = Some r \<Longrightarrow>
   take 1 (fst (snd r)) = [HttpGet urlStr]"
proof (cases n)
  case 0
  assume "getPlaylist n ext outPath urlStr w = Some r"
  with 0 show ?thesis by simp
next
  case (Suc m)
  assume p: "url_Parse ext urlStr" and r: "getPlaylist n ext outPath urlStr w = Some r"
  have ce: "\<And>w evs e. take (Suc 0) (fst (snd (catchException ext outPath (w, HttpGet urlStr # evs, e)))) = [HttpGet urlStr]"
    subgoal for w evs e
      by (cases e) (simp_all add: catchException_def split_beta)
    done
  from r p Suc show ?thesis
    by (auto simp: ce split: manifest_response.splits playlist.splits sum.splits option.splits prod.splits)
qed

lemma fetched_send_segments: "fetched (fst (send_segments ext u segs cache)) = []"
  by (induction ext u segs cache rule: send_segments.induct)
     (auto simp: split_beta Let_def lru_Get_def split: sum.splits if_splits)

lemma fetched_resolve_media: "fetched (fst (snd (resolve_media ext u mpl w))) = []"
  by (auto simp: resolve_media_def Let_def fetched_append fetched_send_segments
        split: prod.splits ending.splits)
     (metis fetched_send_segments fst_conv)+

text \<open>
  A pass over a closed manifest that runs to its end closes the stream after its
  sends; a pass over a manifest that is not closed never closes it.
\<close>

lemma send_segments_only_sends: "e \<in> set (fst (send_segments ext u segs cache)) \<Longrightarrow> \<exists>x. e = Send x"
  by (induction ext u segs cache arbitrary: e rule: send_segments.induct)
     (auto simp: split_beta Let_def lru_Get_def split: sum.splits if_splits)

lemma closed_manifest_closes_stream:
  "Closed mpl \<Longrightarrow> snd (snd (resolve_media ext u mpl w)) = Done \<Longrightarrow>
   \<exists>evs. fst (snd (resolve_media ext u mpl w)) = evs @ [Close] \<and> (\<forall>e\<in>set evs. \<exists>x. e = Send x)"
  by (auto simp: resolve_media_def Let_def split: prod.splits ending.splits
        dest: send_segments_only_sends)
     (metis fst_conv send_segments_only_sends)+

lemma live_manifest_never_closes:
  "\<not> Closed mpl \<Longrightarrow> Close \<notin> set (fst (snd (resolve_media ext u mpl w)))"
  by (auto simp: resolve_media_def Let_def split: prod.splits ending.splits)
     (metis event.distinct fst_conv send_segments_only_sends)+

lemma media_manifest_fetched_once:
  "url_Parse ext u \<Longrightarrow> manifest_Get ext u = Decoded (MEDIA mpl) \<Longrightarrow>
   \<exists>r. getPlaylist (Suc n) ext outPath u w = Some r \<and> fetched (fst (snd r)) = [u]"
  by (simp add: split_beta catchException_fetched fetched_resolve_media)

lemma unanswered_manifest_fetched_once:
  "url_Parse ext u \<Longrightarrow> manifest_Get ext u = NoResponse \<Longrightarrow>
   \<exists>r. getPlaylist (Suc n) ext outPath u w = Some r \<and> fetched (fst (snd r)) = [u]
       \<and> fst (snd r) = [HttpGet u, PrintErr (ConnectionError u), Sleep 3, PrintErr NilDereference]"
  by (simp add: catchException_def split_beta)

text \<open>
  The loop over the variants returns the URI of the first variant of greatest
  bandwidth, provided some variant has a bandwidth above the initial maximum; otherwise
  it returns the URI it started with.
\<close>

lemma select_variant_none_larger:
  "\<forall>v\<in>set vs. Bandwidth v \<le> m \<Longrightarrow> select_variant vs u m = u"
  by (induction vs arbitrary: u m) (auto simp: not_less)

lemma select_variant_first_maximum:
  "\<exists>v\<in>set vs. m < Bandwidth v \<Longrightarrow>
   \<exists>pre v post. vs = pre @ v # post \<and> select_variant vs u m = URI v \<and> m < Bandwidth v
     \<and> (\<forall>x\<in>set pre. Bandwidth x < Bandwidth v) \<and> (\<forall>x\<in>set post. Bandwidth x \<le> Bandwidth v)"
proof (induction vs arbitrary: u m)
  case Nil
  then show ?case by simp
next
  case (Cons a vs)
  show ?case
  proof (cases "m < Bandwidth a")
    case True
    show ?thesis
    proof (cases "\<exists>v\<in>set vs. Bandwidth a < Bandwidth v")
      case False
      then have "select_variant vs (URI a) (Bandwidth a) = URI a"
        by (intro select_variant_none_larger) (auto simp: not_less)
      with True False show ?thesis
        by (intro exI[of _ "[]"] exI[of _ a] exI[of _ vs]) (auto simp: not_less)
    next
      case ex: True
      from Cons.IH[OF ex, of "URI a"] obtain pre v post where
        h: "vs = pre @ v # post" "select_variant vs (URI a) (Bandwidth a) = URI v"
           "Bandwidth a < Bandwidth v" "\<forall>x\<in>set pre. Bandwidth x < Bandwidth v"
           "\<forall>x\<in>set post. Bandwidth x \<le> Bandwidth v"
        by blast
      with True show ?thesis
        by (intro exI[of _ "a # pre"] exI[of _ v] exI[of _ post]) auto
    qed
  next
    case False
    with Cons.prems have ex: "\<exists>v\<in>set vs. m < Bandwidth v" by auto
    from Cons.IH[OF ex, of u] obtain pre v post where
      h: "vs = pre @ v # post" "select_variant vs u m = URI v"
         "m < Bandwidth v" "\<forall>x\<in>set pre. Bandwidth x < Bandwidth v"
         "\<forall>x\<in>set post. Bandwidth x \<le> Bandwidth v"
      by blast
    with False show ?thesis
      by (intro exI[of _ "a # pre"] exI[of _ v] exI[of _ post]) (auto simp: not_less)
  qed
qed

lemma select_variant_example:
  "select_variant [\<lparr>URI = ''low.m3u8'', Bandwidth = 500\<rparr>, \<lparr>URI = ''high.m3u8'', Bandwidth = 2000\<rparr>,
                   \<lparr>URI = ''mid.m3u8'', Bandwidth = 1200\<rparr>] [] 0 = ''high.m3u8''"
  by simp

text \<open>
  A signal that arrives before a resolver has set \<open>status\<close> makes \<open>writeJsonFile\<close> panic
  in the handler, which has no deferred call: the process ends with the status of an
  unrecovered panic.
\<close>

lemma listenSignal_before_resolution:
  "status w = None \<Longrightarrow> \<not> locked w \<Longrightarrow>
   exit_status (snd (snd (listenSignal ext outPath w))) = Some 2"
  by (simp add: listenSignal_def writeJsonFile_def exit_status_def)

section \<open>Properties of the fetch task\<close>

text \<open>
  The three early returns of \<open>downloadSegment\<close> reach neither \<open>wg.Done()\<close> nor
  \<open><-chLimit\<close>; and whether the segment is requested depends on the presence of the
  whole URI as a key of \<open>status\<close>, not on the value stored under the segment's name.
\<close>

lemma skipped_task_keeps_slot:
  "LastIndex uri CHR ''/'' \<noteq> - 1 \<Longrightarrow> status w = Some s \<Longrightarrow> map_of s uri \<noteq> None \<Longrightarrow>
   fst (snd (downloadSegment ext outPath uri w)) = []"
  by (simp add: downloadSegment_def catchException_def split_beta)

lemma refused_task_keeps_slot:
  "LastIndex uri CHR ''/'' \<noteq> - 1 \<Longrightarrow> status w = Some s \<Longrightarrow> map_of s uri = None \<Longrightarrow>
   url_Parse ext uri \<Longrightarrow> segment_Get ext uri = Response code body complete \<Longrightarrow> code \<noteq> 200 \<Longrightarrow>
   fst (snd (downloadSegment ext outPath uri w)) = [HttpGet uri, LogStatus code uri]"
  by (simp add: downloadSegment_def catchException_def split_beta)

lemma unreachable_task_keeps_slot:
  "LastIndex uri CHR ''/'' \<noteq> - 1 \<Longrightarrow> status w = Some s \<Longrightarrow> map_of s uri = None \<Longrightarrow>
   url_Parse ext uri \<Longrightarrow> segment_Get ext uri = NoConnection \<Longrightarrow>
   fst (snd (downloadSegment ext outPath uri w)) = [HttpGet uri, PrintErr (ConnectionError uri)]"
  by (simp add: downloadSegment_def catchException_def split_beta)

lemma served_task_events:
  "LastIndex uri CHR ''/'' \<noteq> - 1 \<Longrightarrow> status w = Some s \<Longrightarrow> map_of s uri = None \<Longrightarrow>
   url_Parse ext uri \<Longrightarrow> segment_Get ext uri = Response 200 body True \<Longrightarrow>
   files w (segment_path outPath (getFileName uri)) \<noteq> Some Unreadable \<Longrightarrow> bar w = Some b \<Longrightarrow>
   fst (snd (downloadSegment ext outPath uri w)) = [HttpGet uri, WgDone, Release]"
  by (cases b)
     (simp add: downloadSegment_def catchException_def split_beta os_Create_def file_Write_def
        setMediaStatus_def Let_def)

lemma fetch_decided_by_uri_key:
  "LastIndex uri CHR ''/'' \<noteq> - 1 \<Longrightarrow> status w = Some s \<Longrightarrow> url_Parse ext uri \<Longrightarrow>
   fetched (fst (snd (downloadSegment ext outPath uri w))) = (if map_of s uri = None then [uri] else [])"
  by (auto simp: downloadSegment_def catchException_fetched Let_def
        split: segment_response.splits option.splits)

section \<open>The claims\<close>


lemmas resume_defs =
  downloadFunc_resolve_def load_def store_exported_def exported_def getContinuePlaylist_def
  catchException_def writeJsonFile_def index_path_def initial_world_def index_only_def
  mismatch_index_def plain_extern_def Let_def

text \<open>
  Claim C1: the fetch task releases its concurrency slot and signals its completion on
  every exit path, also when the download failed or was skipped.

  The code does so only when it reaches the end of \<open>downloadSegment\<close>. A task whose
  request is answered with status 404, and a task whose request meets a transport
  error, record the failure and return: the events of the task hold neither \<open>WgDone\<close>
  nor \<open>Release\<close>, and the task ends by returning, not by a panic.
\<close>

theorem slot_kept_on_failed_fetch:
  "snd (downloadSegment refusing_extern ''out'' ''http://h/v/seg1.ts'' (one_segment_world False)) =
     ([HttpGet ''http://h/v/seg1.ts'', LogStatus 404 ''http://h/v/seg1.ts''], Done)
   \<and> snd (downloadSegment plain_extern ''out'' ''http://h/v/seg1.ts'' (one_segment_world False)) =
     ([HttpGet ''http://h/v/seg1.ts'', PrintErr (ConnectionError ''http://h/v/seg1.ts'')], Done)"
  by (simp add: downloadSegment_def refusing_extern_def plain_extern_def one_segment_world_def
        initial_world_def catchException_def writeJsonFile_def setMediaStatus_def getFileName_def
        Let_def)

text \<open>
  Claim C2: a descriptor whose status under the segment's derived name is already true
  is skipped without network I/O.

  The code looks the whole URI up in \<open>status\<close>, whose keys are derived names. The
  manifest names \<open>a/seg1.ts\<close> and \<open>b/seg1.ts\<close>; both are sent. Once the task of the
  first has completed, the status of \<open>seg1.ts\<close> is true; the task of the second, whose
  derived name is \<open>seg1.ts\<close> too, requests its segment all the same.
\<close>

theorem completed_segment_fetched_again:
  "map_option (fst \<circ> snd)
     (getPlaylist 1 collision_extern ''out'' ''http://h/v/index.m3u8'' (initial_world Map.empty)) =
     Some [HttpGet ''http://h/v/index.m3u8'', Send ''http://h/v/a/seg1.ts'',
           Send ''http://h/v/b/seg1.ts'', Close]
   \<and> status collision_first_done = Some [(''seg1.ts'', True)]
   \<and> getFileName ''http://h/v/b/seg1.ts'' = ''seg1.ts''
   \<and> fst (snd (downloadSegment collision_extern ''out'' ''http://h/v/b/seg1.ts'' collision_first_done)) =
     [HttpGet ''http://h/v/b/seg1.ts'', WgDone, Release]"
proof -
  have r: "getPlaylist 1 collision_extern ''out'' ''http://h/v/index.m3u8'' (initial_world Map.empty) =
      Some ((initial_world Map.empty)
              \<lparr>Path := ''http://h/v/a/'', MediaStatus := [(''seg1.ts'', False)],
               MediaList := [''seg1.ts'', ''seg1.ts''],
               status := Some [(''seg1.ts'', False)], bar := Some (2, 0),
               files := [''out/.index'' \<mapsto> Data ''checkpoint'']\<rparr>,
            [HttpGet ''http://h/v/index.m3u8'', Send ''http://h/v/a/seg1.ts'',
             Send ''http://h/v/b/seg1.ts'', Close], Done)"
    by (simp add: collision_extern_def collision_manifest_def plain_extern_def initial_world_def
          resolve_media_def getFilePath_def getAbsoluteUri_def HasPrefix_def dir_of_def
          getFileName_def lru_Get_def lru_Add_def catchException_def writeJsonFile_def
          index_path_def exported_def Let_def)
  have cr: "collision_resolved =
      (initial_world Map.empty)
              \<lparr>Path := ''http://h/v/a/'', MediaStatus := [(''seg1.ts'', False)],
               MediaList := [''seg1.ts'', ''seg1.ts''],
               status := Some [(''seg1.ts'', False)], bar := Some (2, 0),
               files := [''out/.index'' \<mapsto> Data ''checkpoint'']\<rparr>"
    unfolding collision_resolved_def r by simp
  have d: "status collision_first_done = Some [(''seg1.ts'', True)]"
    and b: "bar collision_first_done = Some (2, 1)"
    and u: "files collision_first_done (segment_path ''out'' ''seg1.ts'') = Some (Data ''DATA'')"
    by (simp_all add: collision_first_done_def cr downloadSegment_def
          collision_extern_def plain_extern_def initial_world_def catchException_def
          writeJsonFile_def setMediaStatus_def getFileName_def os_Create_def file_Write_def
          segment_path_def index_path_def exported_def Let_def)
  have n: "getFileName ''http://h/v/b/seg1.ts'' = ''seg1.ts''"
    by (simp add: getFileName_def)
  have "fst (snd (downloadSegment collision_extern ''out'' ''http://h/v/b/seg1.ts'' collision_first_done)) =
     [HttpGet ''http://h/v/b/seg1.ts'', WgDone, Release]"
    by (rule served_task_events[OF _ d _ _ _ _ b])
       (simp_all add: n u collision_extern_def plain_extern_def)
  with r d n show ?thesis by simp
qed



text \<open>
  Claim C4: when the manifest is closed the resolver closes the stream after the pass;
  when it is not, the resolver sleeps \<open>targetDuration\<close> seconds, fetches and resolves the
  manifest again, and so on.

  The code has no loop. For the live manifest it requests the manifest once, sends the
  two segments, sleeps and returns: no second request, and the stream is left open.
\<close>

theorem live_manifest_fetched_once:
  "map_option snd
     (getPlaylist (Suc n) live_extern ''out'' ''http://h/v/index.m3u8'' (initial_world Map.empty)) =
   Some ([HttpGet ''http://h/v/index.m3u8'', Send ''http://h/v/seg1.ts'',
          Send ''http://h/v/seg2.ts'', Sleep 10], Done)"
  by (simp add: live_extern_def plain_extern_def live_manifest_def initial_world_def
        resolve_media_def getFilePath_def getAbsoluteUri_def HasPrefix_def dir_of_def
        getFileName_def lru_Get_def lru_Add_def catchException_def writeJsonFile_def Let_def)

text \<open>
  Claim C5: when the first fetch of the manifest fails with a connection error, the
  resolver retries once after 3 seconds and then decodes the body it obtained.

  The code sleeps 3 seconds and goes on to read the body of a response it does not
  have. There is one request; the nil dereference is a panic, which the deferred
  \<open>catchException\<close> prints; \<open>status\<close> is still nil, so writing the checkpoint panics in
  turn, and that panic leaves \<open>getPlaylist\<close>. Nothing is decoded.
\<close>

theorem failed_manifest_fetch_not_retried:
  "map_option snd
     (getPlaylist (Suc n) plain_extern ''out'' ''http://h/v/index.m3u8'' (initial_world Map.empty)) =
   Some ([HttpGet ''http://h/v/index.m3u8'', PrintErr (ConnectionError ''http://h/v/index.m3u8''),
          Sleep 3, PrintErr NilDereference], Panic NilDereference)"
  by (simp add: plain_extern_def initial_world_def catchException_def writeJsonFile_def)






text \<open>
  Claim C8, as amended: when a checkpoint file is present and the segment order it
  loads is not empty, the resolver fetches no manifest, sends exactly one descriptor
  for every entry of the loaded status map whose value is false (in the order in which
  the map is ranged over), counts the entries whose value is true toward progress
  without sending them, and closes the stream; when the keys of the status map are
  exactly the names of the segment order, each once, these descriptors are one for
  every incomplete name of the segment order. When the loaded segment order is empty,
  the resolver is \<open>getPlaylist\<close> on the manifest URL.
\<close>

theorem resume_emits_false_status_entries:
  assumes "files w (index_path outPath) \<noteq> None"
  shows "let w1 = load ext (index_path outPath) w in
         if MediaList w1 \<noteq> []
         then (\<exists>r. downloadFunc_resolve n ext m3u8Url outPath w = Some r
                 \<and> fst (snd r) =
                     map (\<lambda>kv. Send (Path w1 @ fst kv)) (filter (\<lambda>kv. \<not> snd kv) (MediaStatus w1)) @ [Close]
                 \<and> fetched (fst (snd r)) = []
                 \<and> bar (fst r) = Some (length (MediaList w1), length (filter snd (MediaStatus w1)))
                 \<and> (distinct (map fst (MediaStatus w1)) \<and> distinct (MediaList w1)
                      \<and> set (MediaList w1) = fst ` set (MediaStatus w1) \<longrightarrow>
                    mset (sent (fst (snd r))) =
                      mset (map (\<lambda>v. Path w1 @ v)
                             (filter (\<lambda>v. map_of (MediaStatus w1) v = Some False) (MediaList w1)))))
         else downloadFunc_resolve n ext m3u8Url outPath w = getPlaylist n ext outPath m3u8Url w1"
proof -
  let ?w1 = "load ext (index_path outPath) w"
  let ?r = "getContinuePlaylist ext outPath ?w1"
  let ?evs = "map (\<lambda>kv. Send (Path ?w1 @ fst kv)) (filter (\<lambda>kv. \<not> snd kv) (MediaStatus ?w1)) @ [Close]"
  have ev: "fst (snd ?r) = ?evs"
    and b: "bar (fst ?r) = Some (length (MediaList ?w1), length (filter snd (MediaStatus ?w1)))"
    using getContinuePlaylist_events[of ext outPath ?w1] by simp_all
  have s: "sent ?evs = map (\<lambda>kv. Path ?w1 @ fst kv) (filter (\<lambda>kv. \<not> snd kv) (MediaStatus ?w1))"
    by (rule sent_map_Send)
  have f: "fetched ?evs = []"
    by (rule fetched_map_Send)
  have inv: "mset (sent ?evs) =
       mset (map (\<lambda>v. Path ?w1 @ v) (filter (\<lambda>v. map_of (MediaStatus ?w1) v = Some False) (MediaList ?w1)))"
    if "distinct (map fst (MediaStatus ?w1))" "distinct (MediaList ?w1)"
       "set (MediaList ?w1) = fst ` set (MediaStatus ?w1)"
  proof -
    have "mset (map fst (filter (\<lambda>kv. \<not> snd kv) (MediaStatus ?w1))) =
          mset (filter (\<lambda>v. map_of (MediaStatus ?w1) v = Some False) (MediaList ?w1))"
      using that by (rule incomplete_entries_mset)
    then have "image_mset (\<lambda>v. Path ?w1 @ v) (mset (map fst (filter (\<lambda>kv. \<not> snd kv) (MediaStatus ?w1)))) =
          image_mset (\<lambda>v. Path ?w1 @ v) (mset (filter (\<lambda>v. map_of (MediaStatus ?w1) v = Some False) (MediaList ?w1)))"
      by simp
    then show ?thesis
      by (simp add: s multiset.map_comp comp_def)
  qed
  show ?thesis
  proof (cases "MediaList ?w1 = []")
    case True
    with assms show ?thesis
      by (auto simp: downloadFunc_resolve_def Let_def)
  next
    case False
    with assms have "downloadFunc_resolve n ext m3u8Url outPath w = Some ?r"
      by (auto simp: downloadFunc_resolve_def Let_def)
    with False ev b f inv show ?thesis
      by (simp add: Let_def)
  qed
qed

text \<open>
  A checkpoint with \<open>seg1.ts\<close> complete and \<open>seg2.ts\<close> not: one descriptor, for
  \<open>seg2.ts\<close>; progress 1 of 2.
\<close>

theorem resume_witness:
  "files (initial_world index_only) (index_path ''out'') \<noteq> None
   \<and> map_option (fst \<circ> snd)
       (downloadFunc_resolve 1 half_done_extern ''http://h/v/index.m3u8'' ''out'' (initial_world index_only)) =
     Some [Send ''http://h/v/seg2.ts'', Close]
   \<and> map_option (bar \<circ> fst)
       (downloadFunc_resolve 1 half_done_extern ''http://h/v/index.m3u8'' ''out'' (initial_world index_only)) =
     Some (Some (2, 1))
   \<and> map_option (mset \<circ> sent \<circ> fst \<circ> snd)
       (downloadFunc_resolve 1 half_done_extern ''http://h/v/index.m3u8'' ''out'' (initial_world index_only)) =
     Some (mset [''http://h/v/seg2.ts''])"
proof -
  have h: "files (initial_world index_only) (index_path ''out'') \<noteq> None"
    by (simp add: initial_world_def index_only_def index_path_def)
  have l: "load half_done_extern (index_path ''out'') (initial_world index_only) =
           (initial_world index_only)\<lparr>Path := ''http://h/v/'',
              MediaStatus := [(''seg2.ts'', False), (''seg1.ts'', True)],
              MediaList := [''seg1.ts'', ''seg2.ts'']\<rparr>"
    by (simp add: load_def store_exported_def half_done_extern_def half_done_checkpoint_def
          index_path_def initial_world_def index_only_def plain_extern_def)
  from resume_emits_false_status_entries[OF h, of half_done_extern 1 "''http://h/v/index.m3u8''"]
  obtain r where
    "downloadFunc_resolve 1 half_done_extern ''http://h/v/index.m3u8'' ''out'' (initial_world index_only) = Some r"
    "fst (snd r) = [Send ''http://h/v/seg2.ts'', Close]"
    "bar (fst r) = Some (2, 1)"
    "mset (sent (fst (snd r))) = mset [''http://h/v/seg2.ts'']"
    by (auto simp: l Let_def numeral_2_eq_2)
  with h show ?thesis
    by simp
qed

text \<open>
  Claim C8 as stated fails: the resolver ranges over the status map, not over the
  segment order. The segment order has the one name \<open>seg%201.ts\<close>, incomplete; the
  resolver sends two descriptors.
\<close>

theorem resume_counterexample:
  "MediaList (load escaped_extern (index_path ''out'') (initial_world index_only)) = [''seg%201.ts'']
   \<and> map_option (sent \<circ> fst \<circ> snd)
        (downloadFunc_resolve 1 escaped_extern ''http://h/v/index.m3u8'' ''out'' (initial_world index_only)) =
      Some [''http://h/v/seg%201.ts'', ''http://h/v/seg 1.ts'']"
  by (simp add: resume_defs escaped_extern_def escaped_checkpoint_def)

text \<open>
  Claim C9: for every selector manifest the resolver selects the rendition of maximum
  bandwidth, the first one among equals, and resolves its URI.

  The maximum starts at 0 and a variant is taken only when its bandwidth is greater.
  For a master manifest whose only variant declares bandwidth 0 no variant is selected:
  the selected URI is empty, it resolves to the URL of the master manifest itself, and
  \<open>getPlaylist\<close> requests that manifest again and again: no amount of fuel lets it
  return.
\<close>

theorem zero_bandwidth_variant_not_followed:
  "select_variant [\<lparr>URI = ''low.m3u8'', Bandwidth = 0\<rparr>] [] 0 = []
   \<and> getPlaylist n zero_bandwidth_extern ''out'' ''http://h/v/index.m3u8'' (initial_world Map.empty) = None"
proof -
  have "getPlaylist n zero_bandwidth_extern ''out'' ''http://h/v/index.m3u8'' (initial_world Map.empty) = None"
  proof (induction n)
    case 0
    show ?case by simp
  next
    case (Suc n)
    then show ?case
      by (simp add: zero_bandwidth_extern_def plain_extern_def zero_bandwidth_master_def
            getAbsoluteUri_def HasPrefix_def)
  qed
  then show ?thesis by simp
qed

text \<open>
  Claim C10, as amended: if the checkpoint file exists but cannot be read, or its
  content is not syntactically valid JSON, loading leaves the in-memory state empty
  and reports nothing, and the run proceeds as a fresh download: the resolver is
  \<open>getPlaylist\<close> on the manifest URL, whose first act is to request it. (A checkpoint
  that is well-formed JSON with a value of the wrong type in one field is not
  reported either, but the fields that do decode are kept.)
\<close>

theorem unusable_checkpoint_runs_fresh:
  assumes "checkpoint_unusable ext outPath (initial_world fs)"
  shows "load ext (index_path outPath) (initial_world fs) = initial_world fs
       \<and> downloadFunc_resolve n ext m3u8Url outPath (initial_world fs) =
           getPlaylist n ext outPath m3u8Url (initial_world fs)
       \<and> (url_Parse ext m3u8Url \<longrightarrow>
            (case getPlaylist n ext outPath m3u8Url (initial_world fs) of
               None \<Rightarrow> True
             | Some r \<Rightarrow> take 1 (fst (snd r)) = [HttpGet m3u8Url]))"
proof -
  have l: "load ext (index_path outPath) (initial_world fs) = initial_world fs"
    using assms
    by (auto simp: checkpoint_unusable_def load_def split: option.splits file_content.splits)
  have e: "MediaList (initial_world fs) = []"
    by (simp add: initial_world_def)
  have r: "downloadFunc_resolve n ext m3u8Url outPath (initial_world fs) =
           getPlaylist n ext outPath m3u8Url (initial_world fs)"
    by (simp add: downloadFunc_resolve_def l e Let_def)
  have g: "url_Parse ext m3u8Url \<longrightarrow>
            (case getPlaylist n ext outPath m3u8Url (initial_world fs) of
               None \<Rightarrow> True
             | Some r \<Rightarrow> take 1 (fst (snd r)) = [HttpGet m3u8Url])"
    by (auto split: option.splits dest: getPlaylist_fetches_first)
  from l r g show ?thesis by blast
qed

text \<open>A checkpoint file whose content is not JSON: the run requests the manifest.\<close>

theorem unusable_checkpoint_witness:
  "checkpoint_unusable plain_extern ''out'' (initial_world index_only)
   \<and> url_Parse plain_extern ''http://h/v/index.m3u8''
   \<and> load plain_extern (index_path ''out'') (initial_world index_only) = initial_world index_only
   \<and> map_option (take 1 \<circ> fst \<circ> snd)
        (downloadFunc_resolve 1 plain_extern ''http://h/v/index.m3u8'' ''out'' (initial_world index_only)) =
      Some [HttpGet ''http://h/v/index.m3u8'']"
proof -
  have h: "checkpoint_unusable plain_extern ''out'' (initial_world index_only)"
    by (simp add: checkpoint_unusable_def index_path_def initial_world_def index_only_def
          plain_extern_def)
  have u: "url_Parse plain_extern ''http://h/v/index.m3u8''"
    by (simp add: plain_extern_def)
  have g: "getPlaylist 1 plain_extern ''out'' ''http://h/v/index.m3u8'' (initial_world index_only) \<noteq> None"
    by (simp add: plain_extern_def)
  from unusable_checkpoint_runs_fresh[OF h, of 1 "''http://h/v/index.m3u8''"] h u g
  show ?thesis
    by (auto split: option.splits)
qed

text \<open>
  Claim C10 as stated fails for a checkpoint that is JSON of the wrong shape: decoding
  returns an error, the state is not empty afterwards, and the run resumes from it
  without requesting the manifest.
\<close>

theorem unusable_checkpoint_counterexample:
  "json_Unmarshal mismatch_extern mismatch_document (exported (initial_world mismatch_index)) =
     TypeMismatch \<lparr>Path = [], MediaStatus = [(''seg1.ts'', False)], MediaList = [''seg1.ts''], status = None\<rparr>
   \<and> MediaList (load mismatch_extern (index_path ''out'') (initial_world mismatch_index)) = [''seg1.ts'']
   \<and> map_option (fst \<circ> snd)
        (downloadFunc_resolve 1 mismatch_extern ''http://h/v/index.m3u8'' ''out'' (initial_world mismatch_index)) =
      Some [Send ''seg1.ts'', Close]"
  by (simp add: resume_defs mismatch_extern_def)

end
